theory Spec2Isabelle
  imports Main "HOL-Library.Sublist" "HOL-Library.Char_ord" "HOL-Library.List_Lexorder"
begin

section \<open>The dog breed classification app (app.py)\<close>

text \<open>
  The application is a thin layer of Python over OpenCV, Keras, Flask and
  Flask-Uploads. Those libraries, the trained weights, the breed-name pickle and
  the file system are not part of the program: they appear here as the fields of
  one environment record. The functions of \<^verbatim>\<open>app.py\<close> are translated one
  by one over that environment. An exception is a value \<open>Inl e\<close>.
\<close>

subsection \<open>Errors and the environment\<close>

datatype error =
    Cv2Error            \<comment> \<open>\<^verbatim>\<open>cv2.error\<close>: \<^verbatim>\<open>cvtColor\<close> or the cascade on an unreadable image\<close>
  | ImageError          \<comment> \<open>\<^verbatim>\<open>image.load_img\<close> cannot open or decode the file\<close>
  | LoadError           \<comment> \<open>a weight file or the pickle cannot be loaded\<close>
  | ValueError          \<comment> \<open>\<^verbatim>\<open>np.argmax\<close> of an empty array\<close>
  | IndexError          \<comment> \<open>\<^verbatim>\<open>dog_names[i]\<close> out of range\<close>
  | KeyError            \<comment> \<open>\<^verbatim>\<open>session["file_urls"]\<close> without the key\<close>
  | AttributeError      \<comment> \<open>an attribute of \<^verbatim>\<open>None\<close>\<close>
  | UploadNotAllowed    \<comment> \<open>raised by \<^verbatim>\<open>photos.save\<close>\<close>
  | FileNotFoundError   \<comment> \<open>\<^verbatim>\<open>iterdir\<close> on a missing directory, \<^verbatim>\<open>unlink\<close> of a missing file\<close>
  | IsADirectoryError   \<comment> \<open>\<^verbatim>\<open>unlink\<close> of a directory, writing a file over one\<close>
  | NotADirectoryError  \<comment> \<open>a path through a plain file\<close>

text \<open>An entry of the upload directory: a plain file or a subdirectory, with its name.\<close>

datatype entry = File string | Dir string

fun entry_name :: "entry \<Rightarrow> string" where
  "entry_name (File name) = name"
| "entry_name (Dir name) = name"


type_synonym rect = "int \<times> int \<times> int \<times> int"

text \<open>
  \<open>'t\<close> is the type of image arrays and tensors (\<^verbatim>\<open>np.ndarray\<close>), \<open>'a\<close> the
  type of the scores in a network's output vector; only their order matters.
\<close>

record ('t, 'a) env =
  imread :: "string \<Rightarrow> 't option"
    \<comment> \<open>\<^verbatim>\<open>cv2.imread\<close>: \<^verbatim>\<open>None\<close> for a file that cannot be read\<close>
  detectMultiScale :: "'t \<Rightarrow> error + rect list"
    \<comment> \<open>\<^verbatim>\<open>cvtColor\<close> to grayscale, then the frontal-face cascade\<close>
  load_img :: "string \<Rightarrow> error + 't"
    \<comment> \<open>\<^verbatim>\<open>image.load_img\<close> at 224 x 224 and \<^verbatim>\<open>img_to_array\<close>\<close>
  expand_dims :: "'t \<Rightarrow> 't"
  resnet50_weights :: "error + ('t \<Rightarrow> 'a list)"
    \<comment> \<open>\<^verbatim>\<open>ResNet50(weights="imagenet")\<close> as its \<^verbatim>\<open>predict\<close>, flattened\<close>
  resnet50_preprocess_input :: "'t \<Rightarrow> 't"
  xception_head_weights :: "error + ('t \<Rightarrow> 'a list)"
    \<comment> \<open>pooling and \<^verbatim>\<open>Dense(133)\<close> with \<^verbatim>\<open>weights.best.Xception.hdf5\<close>\<close>
  xception_preprocess_input :: "'t \<Rightarrow> 't"
  xception_bottleneck :: "error + ('t \<Rightarrow> 't)"
    \<comment> \<open>\<^verbatim>\<open>Xception(weights="imagenet", include_top=False)\<close> as its \<^verbatim>\<open>predict\<close>\<close>
  dog_names_pickle :: "error + string list"
    \<comment> \<open>the content of \<^verbatim>\<open>utility_files/dog_names.pickle\<close>, a list of breed names\<close>
  uploads_path :: string
    \<comment> \<open>\<^verbatim>\<open>str(Path.cwd().joinpath("uploads"))\<close>\<close>
  dir_position :: "string \<Rightarrow> entry list \<Rightarrow> nat"
    \<comment> \<open>where the file system lists a new entry among the old ones\<close>
  photos_save :: "entry list \<Rightarrow> string \<Rightarrow> error + string"
    \<comment> \<open>\<^verbatim>\<open>photos.save\<close>: the name stored under, from the directory and the file's name\<close>
  photos_url :: "string \<Rightarrow> string"

subsection \<open>Calls\<close>

text \<open>
  Each of the three model functions reports that it ran. A computation yields
  the calls it made, in order, and its result or the exception that ended it.
\<close>

datatype call = FaceDetector string | DogDetector string | PredictBreed string

type_synonym 'r run = "call list \<times> (error + 'r)"

subsection \<open>\<^verbatim>\<open>np.argmax\<close>\<close>

text \<open>
  The index of the first greatest entry; \<^verbatim>\<open>ValueError\<close> on an empty vector.
  \<open>argmax_from bi bv i xs\<close> scans \<open>xs\<close>, whose head has index \<open>i\<close>, with the best
  entry so far \<open>bv\<close> at index \<open>bi\<close>.
\<close>

fun argmax_from :: "nat \<Rightarrow> 'a::linorder \<Rightarrow> nat \<Rightarrow> 'a list \<Rightarrow> nat" where
  "argmax_from bi bv i [] = bi"
| "argmax_from bi bv i (x # xs) =
     (if bv < x then argmax_from i x (Suc i) xs else argmax_from bi bv (Suc i) xs)"

definition argmax :: "'a::linorder list \<Rightarrow> error + nat" where
  "argmax v = (case v of [] \<Rightarrow> Inl ValueError | x # xs \<Rightarrow> Inr (argmax_from 0 x 1 xs))"

subsection \<open>The model functions\<close>

definition load_resnet50_model :: "('t, 'a) env \<Rightarrow> error + ('t \<Rightarrow> 'a list)" where
  "load_resnet50_model env = resnet50_weights env"

definition load_xception_model :: "('t, 'a) env \<Rightarrow> error + ('t \<Rightarrow> 'a list)" where
  "load_xception_model env = xception_head_weights env"

definition face_detector :: "('t, 'a) env \<Rightarrow> string \<Rightarrow> bool run" where
  "face_detector env img_path =
     ([FaceDetector img_path],
      case imread env img_path of
        None \<Rightarrow> Inl Cv2Error
      | Some img \<Rightarrow>
          (case detectMultiScale env img of
             Inl e \<Rightarrow> Inl e
           | Inr faces \<Rightarrow> Inr (length faces > 0)))"

definition path_to_tensor :: "('t, 'a) env \<Rightarrow> string \<Rightarrow> error + 't" where
  "path_to_tensor env img_path =
     (case load_img env img_path of
        Inl e \<Rightarrow> Inl e
      | Inr x \<Rightarrow> Inr (expand_dims env x))"

definition dog_detector :: "('t, 'a::linorder) env \<Rightarrow> string \<Rightarrow> bool run" where
  "dog_detector env img_path =
     ([DogDetector img_path],
      case load_resnet50_model env of
        Inl e \<Rightarrow> Inl e
      | Inr resnet50_model \<Rightarrow>
          (case path_to_tensor env img_path of
             Inl e \<Rightarrow> Inl e
           | Inr t \<Rightarrow>
               (case argmax (resnet50_model (resnet50_preprocess_input env t)) of
                  Inl e \<Rightarrow> Inl e
                | Inr prediction \<Rightarrow> Inr (prediction \<le> 268 \<and> prediction \<ge> 151))))"

definition predict_breed :: "('t, 'a::linorder) env \<Rightarrow> string \<Rightarrow> string run" where
  "predict_breed env img_path =
     ([PredictBreed img_path],
      case dog_names_pickle env of
        Inl e \<Rightarrow> Inl e
      | Inr dog_names \<Rightarrow>
          (case load_xception_model env of
             Inl e \<Rightarrow> Inl e
           | Inr xception_model \<Rightarrow>
               (case path_to_tensor env img_path of
                  Inl e \<Rightarrow> Inl e
                | Inr t \<Rightarrow>
                    (case xception_bottleneck env of
                       Inl e \<Rightarrow> Inl e
                     | Inr bottleneck \<Rightarrow>
                         (case argmax (xception_model
                                 (bottleneck (xception_preprocess_input env t))) of
                            Inl e \<Rightarrow> Inl e
                          | Inr i \<Rightarrow>
                              if i < length dog_names then Inr (dog_names ! i)
                              else Inl IndexError)))))"

definition human_message :: "string \<Rightarrow> string" where
  "human_message breed =
     ''Looks like a human! If this were a dog, though, I would guess a '' @ breed"

definition dog_message :: "string \<Rightarrow> string" where
  "dog_message breed = ''Looks like a dog! Perhaps a '' @ breed"

definition no_idea_message :: string where
  "no_idea_message =
     ''Well...I have now idea what this is. Apologies. Please try another image.''"

definition main_algorithm :: "('t, 'a::linorder) env \<Rightarrow> string \<Rightarrow> string run" where
  "main_algorithm env img_path =
     (case face_detector env img_path of
        (c1, Inl e) \<Rightarrow> (c1, Inl e)
      | (c1, Inr True) \<Rightarrow>
          (case predict_breed env img_path of
             (c2, Inl e) \<Rightarrow> (c1 @ c2, Inl e)
           | (c2, Inr breed) \<Rightarrow> (c1 @ c2, Inr (human_message breed)))
      | (c1, Inr False) \<Rightarrow>
          (case dog_detector env img_path of
             (c2, Inl e) \<Rightarrow> (c1 @ c2, Inl e)
           | (c2, Inr True) \<Rightarrow>
               (case predict_breed env img_path of
                  (c3, Inl e) \<Rightarrow> (c1 @ c2 @ c3, Inl e)
                | (c3, Inr breed) \<Rightarrow> (c1 @ c2 @ c3, Inr (dog_message breed)))
           | (c2, Inr False) \<Rightarrow> (c1 @ c2, Inr no_idea_message)))"

subsection \<open>The web layer\<close>

text \<open>
  The state between requests is the upload directory and the session. The
  directory is missing (\<open>None\<close>) or is the list of its entries in the order
  \<^verbatim>\<open>iterdir\<close> yields them (Python leaves that order to the file system:
  \<open>dir_position\<close> says where a new entry enters it). The session holds at most
  the key \<^verbatim>\<open>file_urls\<close>. \<open>ran\<close> collects the calls of the model functions.
\<close>

record world =
  uploads :: "entry list option"
  session :: "string list option"
  ran :: "call list"

datatype http_method = GET | POST

text \<open>
  \<^verbatim>\<open>request.files\<close> is a multi-dict: the uploaded files as pairs of form field
  and file name, in the order they were sent.
\<close>

record request =
  req_method :: http_method
  req_files :: "(string \<times> string) list"

datatype response =
    Redirect string
  | Render string "(string \<times> string list) list"
  | Body string

type_synonym 'r handler = "world \<Rightarrow> world \<times> (error + 'r)"

text \<open>Iterating a multi-dict yields each key once, in the order of first occurrence.\<close>

fun field_names :: "(string \<times> 'v) list \<Rightarrow> string list" where
  "field_names [] = []"
| "field_names ((k, v) # kvs) = k # field_names (filter (\<lambda>(k', _). k' \<noteq> k) kvs)"

text \<open>\<^verbatim>\<open>Path.unlink\<close> removes a plain file and raises on a directory.\<close>

definition unlink :: "entry \<Rightarrow> entry list \<Rightarrow> error + entry list" where
  "unlink file dir =
     (case file of
        Dir name \<Rightarrow> Inl IsADirectoryError
      | File name \<Rightarrow> if file \<in> set dir then Inr (remove1 file dir) else Inl FileNotFoundError)"

text \<open>
  The comprehension \<^verbatim>\<open>[file.unlink() for file in Path("./uploads").iterdir()]\<close>:
  the entries listed are unlinked one after another, and the first exception ends
  it with the entries before it gone and the rest in place.
\<close>

fun unlink_all :: "entry list \<Rightarrow> entry list \<Rightarrow> entry list \<times> (error + unit)" where
  "unlink_all [] dir = (dir, Inr ())"
| "unlink_all (file # files) dir =
     (case unlink file dir of
        Inl e \<Rightarrow> (dir, Inl e)
      | Inr dir' \<Rightarrow> unlink_all files dir')"

text \<open>
  Writing the uploaded file. \<^verbatim>\<open>photos.save\<close> splits a name with a slash into
  folder and base name and creates the folder, so the upload directory then lists
  the subdirectory named by the first component, not the file. A plain name is
  written as a file of the upload directory: an existing file is overwritten, a
  new one enters the listing. (Names with empty, \<^verbatim>\<open>.\<close> or \<^verbatim>\<open>..\<close> components
  are not told apart from other names.)
\<close>

definition top_entry :: "string \<Rightarrow> entry" where
  "top_entry name =
     (if CHR ''/'' \<in> set name then Dir (takeWhile (\<lambda>c. c \<noteq> CHR ''/'') name) else File name)"

definition enter :: "('t, 'a) env \<Rightarrow> entry \<Rightarrow> entry list \<Rightarrow> entry list" where
  "enter env e dir =
     take (dir_position env (entry_name e) dir) dir @ [e] @
     drop (dir_position env (entry_name e) dir) dir"

definition create :: "('t, 'a) env \<Rightarrow> string \<Rightarrow> entry list \<Rightarrow> error + entry list" where
  "create env name dir =
     (case top_entry name of
        File f \<Rightarrow>
          if Dir f \<in> set dir then Inl IsADirectoryError
          else if File f \<in> set dir then Inr dir
          else Inr (enter env (File f) dir)
      | Dir d \<Rightarrow>
          if File d \<in> set dir then Inl NotADirectoryError
          else if Dir d \<in> set dir then Inr dir
          else Inr (enter env (Dir d) dir))"

text \<open>
  The upload loop of \<^verbatim>\<open>index\<close>. \<^verbatim>\<open>file_urls\<close> is the very list stored in the
  session, so each \<^verbatim>\<open>append\<close> is seen there at once. \<^verbatim>\<open>photos.save\<close> creates
  a missing upload directory.
\<close>

fun save_uploads ::
  "('t, 'a) env \<Rightarrow> (string \<times> string) list \<Rightarrow> string list \<Rightarrow> unit handler" where
  "save_uploads env fs [] w = (w, Inr ())"
| "save_uploads env fs (f # rest) w =
     (case map_of fs f of
        None \<Rightarrow> (w, Inl AttributeError)
      | Some filename \<Rightarrow>
          (let dir = (case uploads w of None \<Rightarrow> [] | Some d \<Rightarrow> d)
           in case photos_save env dir filename of
                Inl e \<Rightarrow> (w, Inl e)
              | Inr stored \<Rightarrow>
                  (case create env stored dir of
                     Inl e \<Rightarrow> (w, Inl e)
                   | Inr dir' \<Rightarrow>
                       save_uploads env fs rest
                         (w\<lparr>uploads := Some dir',
                            session := map_option
                              (\<lambda>file_urls. file_urls @ [photos_url env stored]) (session w)\<rparr>))))"

definition index :: "('t, 'a) env \<Rightarrow> request \<Rightarrow> response handler" where
  "index env req w =
     (case uploads w of
        None \<Rightarrow> (w, Inl FileNotFoundError)
      | Some dir \<Rightarrow>
          (case unlink_all dir dir of
             (dir', Inl e) \<Rightarrow> (w\<lparr>uploads := Some dir'\<rparr>, Inl e)
           | (dir', Inr _) \<Rightarrow>
               (let w1 = w\<lparr>uploads := Some dir'\<rparr>;
                    w2 = (if session w1 \<noteq> None then w1\<lparr>session := Some []\<rparr> else w1)
                in if req_method req = POST then
                     (let w3 = (if session w2 = None then w2\<lparr>session := Some []\<rparr> else w2)
                      in case save_uploads env (req_files req)
                                (field_names (req_files req)) w3 of
                           (w4, Inl e) \<Rightarrow> (w4, Inl e)
                         | (w4, Inr _) \<Rightarrow> (w4, Inr (Body ''uploading...'')))
                   else (w2, Inr (Render ''index.html'' [])))))"

definition uploaded_images :: "response handler" where
  "uploaded_images w =
     (if session w = None \<or> session w = Some [] then (w, Inr (Redirect ''/''))
      else (case session w of
              None \<Rightarrow> (w, Inl KeyError)
            | Some file_urls \<Rightarrow>
                (w, Inr (Render ''uploaded_images.html'' [(''file_urls'', file_urls)]))))"

text \<open>The loop of \<^verbatim>\<open>predictions\<close>, with the list it appends to.\<close>

fun predict_all ::
  "('t, 'a::linorder) env \<Rightarrow> string list \<Rightarrow> string list \<Rightarrow> string list run" where
  "predict_all env [] predictions = ([], Inr predictions)"
| "predict_all env (img_path # rest) predictions =
     (case main_algorithm env img_path of
        (c, Inl e) \<Rightarrow> (c, Inl e)
      | (c, Inr prediction) \<Rightarrow>
          (case predict_all env rest (predictions @ [prediction]) of
             (cs, r) \<Rightarrow> (c @ cs, r)))"

definition img_paths :: "('t, 'a) env \<Rightarrow> entry list \<Rightarrow> string list" where
  "img_paths env dir = map (\<lambda>file. uploads_path env @ ''/'' @ entry_name file) dir"

definition predictions :: "('t, 'a::linorder) env \<Rightarrow> response handler" where
  "predictions env w =
     (case session w of
        None \<Rightarrow> (w, Inl KeyError)
      | Some file_urls \<Rightarrow>
          (let w1 = w\<lparr>session := None\<rparr>
           in case uploads w1 of
                None \<Rightarrow> (w1, Inl FileNotFoundError)
              | Some dir \<Rightarrow>
                  (case predict_all env (img_paths env dir) [] of
                     (cs, Inl e) \<Rightarrow> (w1\<lparr>ran := ran w1 @ cs\<rparr>, Inl e)
                   | (cs, Inr predictions) \<Rightarrow>
                       (w1\<lparr>ran := ran w1 @ cs\<rparr>,
                        Inr (Render ''predictions.html''
                               [(''file_urls'', file_urls),
                                (''predictions'', predictions)])))))"

subsection \<open>A small environment to run the functions in\<close>

text \<open>
  Three images under \<^verbatim>\<open>/srv/uploads\<close>: one with a face, one that the ImageNet
  classifier puts at index 151, one with neither; a fourth file cannot be read.
  The directory is listed by name, uploads keep their names.
\<close>

definition demo_env :: "(string, int) env" where
  "demo_env =
     \<lparr>imread = (\<lambda>p. if p = ''/srv/uploads/broken.png'' then None else Some p),
      detectMultiScale =
        (\<lambda>img. Inr (if img = ''/srv/uploads/human.png'' then [(10, 10, 50, 50)] else [])),
      load_img = (\<lambda>p. if p = ''/srv/uploads/broken.png'' then Inl ImageError else Inr p),
      expand_dims = (\<lambda>x. x),
      resnet50_weights =
        Inr (\<lambda>t. if t = ''/srv/uploads/dog.png'' then 0 # replicate 150 0 @ [1] else [1, 0]),
      resnet50_preprocess_input = (\<lambda>x. x),
      xception_head_weights =
        Inr (\<lambda>t. if t = ''/srv/uploads/dog.png'' then [0, 2, 1] else [0, 1, 2]),
      xception_preprocess_input = (\<lambda>x. x),
      xception_bottleneck = Inr (\<lambda>x. x),
      dog_names_pickle = Inr [''Affenpinscher'', ''Beagle'', ''Collie''],
      uploads_path = ''/srv/uploads'',
      dir_position = (\<lambda>name dir. length (filter (\<lambda>e. entry_name e < name) dir)),
      photos_save = (\<lambda>dir name. if name = [] then Inl UploadNotAllowed else Inr name),
      photos_url = (\<lambda>name. ''/_uploads/photos/'' @ name)\<rparr>"

section \<open>Properties\<close>

subsection \<open>\<^verbatim>\<open>np.argmax\<close> is the first index of a greatest entry\<close>

lemma argmax_from_scan:
  assumes "length ps = i" "bi < i" "ps ! bi = bv"
    and "\<forall>j<i. ps ! j \<le> bv" "\<forall>j<bi. ps ! j < bv"
  shows "argmax_from bi bv i xs < i + length xs \<and>
         (\<forall>j < i + length xs. (ps @ xs) ! j \<le> (ps @ xs) ! argmax_from bi bv i xs) \<and>
         (\<forall>j < argmax_from bi bv i xs. (ps @ xs) ! j < (ps @ xs) ! argmax_from bi bv i xs)"
  using assms
proof (induction xs arbitrary: ps i bi bv)
  case Nil
  then show ?case by simp
next
  case (Cons x xs)
  show ?case
  proof (cases "bv < x")
    case True
    have len: "length (ps @ [x]) = Suc i" using Cons.prems(1) by simp
    have at: "(ps @ [x]) ! i = x" using Cons.prems(1) by (simp add: nth_append)
    have le: "\<forall>j<Suc i. (ps @ [x]) ! j \<le> x"
      using Cons.prems(1,4) True by (auto simp: nth_append less_Suc_eq)
    have lt: "\<forall>j<i. (ps @ [x]) ! j < x"
      using Cons.prems(1,4) True by (auto simp: nth_append)
    from Cons.IH [OF len _ at le lt] True show ?thesis by simp
  next
    case False
    have len: "length (ps @ [x]) = Suc i" using Cons.prems(1) by simp
    have bi: "bi < Suc i" using Cons.prems(2) by simp
    have at: "(ps @ [x]) ! bi = bv" using Cons.prems(1,2,3) by (simp add: nth_append)
    have le: "\<forall>j<Suc i. (ps @ [x]) ! j \<le> bv"
      using Cons.prems(1,4) False by (auto simp: nth_append less_Suc_eq)
    have lt: "\<forall>j<bi. (ps @ [x]) ! j < bv"
      using Cons.prems(1,2,5) by (auto simp: nth_append)
    from Cons.IH [OF len bi at le lt] False show ?thesis by simp
  qed
qed

lemma argmax_Nil: "argmax [] = Inl ValueError"
  by (simp add: argmax_def)

lemma argmax_first_greatest:
  assumes "v \<noteq> []"
  shows "\<exists>k. argmax v = Inr k \<and> k < length v \<and> (\<forall>j<length v. v ! j \<le> v ! k) \<and>
             (\<forall>j<k. v ! j < v ! k)"
proof -
  from assms obtain x xs where v: "v = x # xs" by (cases v) auto
  have "argmax_from 0 x 1 xs < 1 + length xs \<and>
         (\<forall>j < 1 + length xs. ([x] @ xs) ! j \<le> ([x] @ xs) ! argmax_from 0 x 1 xs) \<and>
         (\<forall>j < argmax_from 0 x 1 xs. ([x] @ xs) ! j < ([x] @ xs) ! argmax_from 0 x 1 xs)"
    by (rule argmax_from_scan) simp_all
  then show ?thesis by (simp add: v argmax_def)
qed

lemma argmax_from_replicate:
  "a < b \<Longrightarrow> bi < i \<Longrightarrow> argmax_from bi a i (replicate n a @ [b]) = i + n"
  by (induction n arbitrary: i) simp_all

lemma argmax_replicate: "a < b \<Longrightarrow> argmax (a # replicate n a @ [b]) = Inr (Suc n)"
  by (simp add: argmax_def argmax_from_replicate)

subsection \<open>The calls and results of the model functions\<close>

lemma face_detector_eq: "face_detector env p = ([FaceDetector p], snd (face_detector env p))"
  by (simp add: face_detector_def)

lemma dog_detector_eq: "dog_detector env p = ([DogDetector p], snd (dog_detector env p))"
  by (simp add: dog_detector_def)

lemma predict_breed_eq: "predict_breed env p = ([PredictBreed p], snd (predict_breed env p))"
  by (simp add: predict_breed_def)

lemma main_algorithm_human:
  assumes "snd (face_detector env p) = Inr True" "snd (predict_breed env p) = Inr b"
  shows "main_algorithm env p = ([FaceDetector p, PredictBreed p], Inr (human_message b))"
  using assms face_detector_eq [of env p] predict_breed_eq [of env p]
  by (simp add: main_algorithm_def)

lemma main_algorithm_dog:
  assumes "snd (face_detector env p) = Inr False" "snd (dog_detector env p) = Inr True"
    "snd (predict_breed env p) = Inr b"
  shows "main_algorithm env p =
    ([FaceDetector p, DogDetector p, PredictBreed p], Inr (dog_message b))"
  using assms face_detector_eq [of env p] dog_detector_eq [of env p] predict_breed_eq [of env p]
  by (simp add: main_algorithm_def)

lemma main_algorithm_neither:
  assumes "snd (face_detector env p) = Inr False" "snd (dog_detector env p) = Inr False"
  shows "main_algorithm env p = ([FaceDetector p, DogDetector p], Inr no_idea_message)"
  using assms face_detector_eq [of env p] dog_detector_eq [of env p]
  by (simp add: main_algorithm_def)

lemma predict_breed_in_table:
  "snd (predict_breed env p) = Inr breed \<Longrightarrow>
   \<exists>dog_names. dog_names_pickle env = Inr dog_names \<and> breed \<in> set dog_names"
  by (auto simp: predict_breed_def split: sum.splits if_splits)

lemma human_in_message: "sublist ''human'' (human_message b)"
  unfolding sublist_def human_message_def
  by (rule exI [of _ "''Looks like a ''"], rule exI [of _ "''! If this were a dog, though, I would guess a '' @ b"]) simp

subsection \<open>The functions on the small environment\<close>

lemmas demo_simps = demo_env_def face_detector_def dog_detector_def predict_breed_def
  load_resnet50_model_def load_xception_model_def path_to_tensor_def

lemma demo_face_human: "snd (face_detector demo_env ''/srv/uploads/human.png'') = Inr True"
  by (simp add: demo_simps)

lemma demo_face_dog: "snd (face_detector demo_env ''/srv/uploads/dog.png'') = Inr False"
  by (simp add: demo_simps)

lemma demo_face_blank: "snd (face_detector demo_env ''/srv/uploads/blank.png'') = Inr False"
  by (simp add: demo_simps)

lemma demo_dog_dog: "snd (dog_detector demo_env ''/srv/uploads/dog.png'') = Inr True"
  by (simp add: demo_simps argmax_replicate)

lemma demo_dog_blank: "snd (dog_detector demo_env ''/srv/uploads/blank.png'') = Inr False"
  by (simp add: demo_simps argmax_def)

lemma demo_breed_human: "snd (predict_breed demo_env ''/srv/uploads/human.png'') = Inr ''Collie''"
  by (simp add: demo_simps argmax_def)

lemma demo_breed_dog: "snd (predict_breed demo_env ''/srv/uploads/dog.png'') = Inr ''Beagle''"
  by (simp add: demo_simps argmax_def)

subsection \<open>The classification pipeline\<close>

text \<open>
  Claim C1. \<^verbatim>\<open>main_algorithm\<close> decides three ways. When the face detector
  answers true and the breed predictor returns a breed, it calls the predictor
  (and not the dog detector) and returns the message that contains "human" and
  ends with the breed, which is an entry of the breed-name table. When the face
  detector answers false and the dog detector true, it calls the predictor and
  returns the "Looks like a dog" message with the breed. When both answer false,
  it returns the fixed message.
\<close>

theorem main_algorithm_decision:
  "(snd (face_detector env p) = Inr True \<longrightarrow> snd (predict_breed env p) = Inr breed \<longrightarrow>
      main_algorithm env p =
        ([FaceDetector p, PredictBreed p],
         Inr (''Looks like a human! If this were a dog, though, I would guess a '' @ breed)) \<and>
      sublist ''human'' (human_message breed) \<and> suffix breed (human_message breed) \<and>
      (\<exists>dog_names. dog_names_pickle env = Inr dog_names \<and> breed \<in> set dog_names)) \<and>
   (snd (face_detector env p) = Inr False \<longrightarrow> snd (dog_detector env p) = Inr True \<longrightarrow>
    snd (predict_breed env p) = Inr breed \<longrightarrow>
      main_algorithm env p =
        ([FaceDetector p, DogDetector p, PredictBreed p],
         Inr (''Looks like a dog! Perhaps a '' @ breed))) \<and>
   (snd (face_detector env p) = Inr False \<longrightarrow> snd (dog_detector env p) = Inr False \<longrightarrow>
      main_algorithm env p =
        ([FaceDetector p, DogDetector p],
         Inr ''Well...I have now idea what this is. Apologies. Please try another image.''))"
proof (intro conjI impI)
  assume "snd (face_detector env p) = Inr True" "snd (predict_breed env p) = Inr breed"
  then show "main_algorithm env p =
        ([FaceDetector p, PredictBreed p],
         Inr (''Looks like a human! If this were a dog, though, I would guess a '' @ breed))"
    using main_algorithm_human [of env p breed] by (simp add: human_message_def)
next
  show "sublist ''human'' (human_message breed)" by (rule human_in_message)
next
  show "suffix breed (human_message breed)" by (simp add: human_message_def suffix_def)
next
  assume "snd (predict_breed env p) = Inr breed"
  then show "\<exists>dog_names. dog_names_pickle env = Inr dog_names \<and> breed \<in> set dog_names"
    by (rule predict_breed_in_table)
next
  assume "snd (face_detector env p) = Inr False" "snd (dog_detector env p) = Inr True"
    "snd (predict_breed env p) = Inr breed"
  then show "main_algorithm env p =
        ([FaceDetector p, DogDetector p, PredictBreed p],
         Inr (''Looks like a dog! Perhaps a '' @ breed))"
    using main_algorithm_dog [of env p breed] by (simp add: dog_message_def)
next
  assume "snd (face_detector env p) = Inr False" "snd (dog_detector env p) = Inr False"
  then show "main_algorithm env p =
        ([FaceDetector p, DogDetector p],
         Inr ''Well...I have now idea what this is. Apologies. Please try another image.'')"
    using main_algorithm_neither [of env p] by (simp add: no_idea_message_def)
qed

theorem main_algorithm_decision_witness:
  "main_algorithm demo_env ''/srv/uploads/human.png'' =
     ([FaceDetector ''/srv/uploads/human.png'', PredictBreed ''/srv/uploads/human.png''],
      Inr ''Looks like a human! If this were a dog, though, I would guess a Collie'') \<and>
   main_algorithm demo_env ''/srv/uploads/dog.png'' =
     ([FaceDetector ''/srv/uploads/dog.png'', DogDetector ''/srv/uploads/dog.png'',
       PredictBreed ''/srv/uploads/dog.png''],
      Inr ''Looks like a dog! Perhaps a Beagle'') \<and>
   main_algorithm demo_env ''/srv/uploads/blank.png'' =
     ([FaceDetector ''/srv/uploads/blank.png'', DogDetector ''/srv/uploads/blank.png''],
      Inr ''Well...I have now idea what this is. Apologies. Please try another image.'')"
  using main_algorithm_decision [of demo_env "''/srv/uploads/human.png''" "''Collie''"]
    main_algorithm_decision [of demo_env "''/srv/uploads/dog.png''" "''Beagle''"]
    main_algorithm_decision [of demo_env "''/srv/uploads/blank.png''"]
    demo_face_human demo_face_dog demo_face_blank demo_dog_dog demo_dog_blank
    demo_breed_human demo_breed_dog
  by simp

text \<open>
  Claim C2. When the face detector and the dog detector both answer false on an
  image path, \<^verbatim>\<open>main_algorithm\<close> returns the "no idea" message, and the calls
  it made are the two detectors only: \<^verbatim>\<open>predict_breed\<close> is called on no path.
\<close>

theorem main_algorithm_no_idea:
  assumes "snd (face_detector env p) = Inr False" and "snd (dog_detector env p) = Inr False"
  shows "snd (main_algorithm env p) =
           Inr ''Well...I have now idea what this is. Apologies. Please try another image.'' \<and>
         fst (main_algorithm env p) = [FaceDetector p, DogDetector p] \<and>
         (\<forall>q. PredictBreed q \<notin> set (fst (main_algorithm env p)))"
  using main_algorithm_neither [OF assms] by (simp add: no_idea_message_def)

theorem main_algorithm_no_idea_witness:
  "snd (face_detector demo_env ''/srv/uploads/blank.png'') = Inr False \<and>
   snd (dog_detector demo_env ''/srv/uploads/blank.png'') = Inr False \<and>
   snd (main_algorithm demo_env ''/srv/uploads/blank.png'') =
     Inr ''Well...I have now idea what this is. Apologies. Please try another image.'' \<and>
   PredictBreed ''/srv/uploads/blank.png''
     \<notin> set (fst (main_algorithm demo_env ''/srv/uploads/blank.png''))"
  using main_algorithm_no_idea [OF demo_face_blank demo_dog_blank] demo_face_blank demo_dog_blank
  by simp

text \<open>
  Claim C3. Whenever the ImageNet classifier is loaded, the image is read and the
  output vector \<open>v\<close> is not empty, \<^verbatim>\<open>np.argmax\<close> yields an index \<open>k\<close> of a
  greatest entry of \<open>v\<close>, and \<^verbatim>\<open>dog_detector\<close> returns true if and only if
  \<open>151 \<le> k \<le> 268\<close>.
\<close>

theorem dog_detector_index_range:
  assumes "load_resnet50_model env = Inr resnet50_model"
    and "path_to_tensor env img_path = Inr t"
    and "resnet50_model (resnet50_preprocess_input env t) = v" and "v \<noteq> []"
  shows "\<exists>k. argmax v = Inr k \<and> k < length v \<and> (\<forall>j<length v. v ! j \<le> v ! k) \<and>
             snd (dog_detector env img_path) = Inr (151 \<le> k \<and> k \<le> 268)"
proof -
  from argmax_first_greatest [OF assms(4)] obtain k where
    k: "argmax v = Inr k" "k < length v" "\<forall>j<length v. v ! j \<le> v ! k" by blast
  have "snd (dog_detector env img_path) = Inr (151 \<le> k \<and> k \<le> 268)"
    using assms(1,2,3) k(1) by (auto simp: dog_detector_def)
  with k show ?thesis by blast
qed

theorem dog_detector_index_range_witness:
  "argmax (0 # replicate 150 0 @ [1::int]) = Inr 151 \<and>
   snd (dog_detector demo_env ''/srv/uploads/dog.png'') = Inr True \<and>
   argmax [1, 0::int] = Inr 0 \<and>
   snd (dog_detector demo_env ''/srv/uploads/blank.png'') = Inr False"
proof -
  have m: "load_resnet50_model demo_env =
      Inr (\<lambda>t. if t = ''/srv/uploads/dog.png'' then 0 # replicate 150 0 @ [1] else [1, 0])"
    by (simp add: demo_simps)
  have t1: "path_to_tensor demo_env ''/srv/uploads/dog.png'' = Inr ''/srv/uploads/dog.png''"
    and t2: "path_to_tensor demo_env ''/srv/uploads/blank.png'' = Inr ''/srv/uploads/blank.png''"
    by (simp_all add: demo_simps)
  have a1: "argmax (0 # replicate 150 0 @ [1::int]) = Inr 151"
    by (simp add: argmax_replicate)
  have a2: "argmax [1, 0::int] = Inr 0" by (simp add: argmax_def)
  from dog_detector_index_range [OF m t1, of "0 # replicate 150 0 @ [1]"] a1
  have "snd (dog_detector demo_env ''/srv/uploads/dog.png'') = Inr True"
    by (auto simp: demo_env_def)
  moreover from dog_detector_index_range [OF m t2, of "[1, 0]"] a2
  have "snd (dog_detector demo_env ''/srv/uploads/blank.png'') = Inr False"
    by (auto simp: demo_env_def)
  ultimately show ?thesis using a1 a2 by simp
qed

text \<open>
  Claim C5. \<^verbatim>\<open>predict_breed\<close> returns a string exactly when the table, the
  two networks and the image load and the argmax index of the head's output lies
  within the table; the string is then the table's entry at that index, hence an
  element of the table. When everything loads and the output vector is not empty
  and not longer than the table, it does return: the entry at an index of a
  greatest score. The result is a function of the environment (the weights and
  the table) and the path, so equal inputs give equal strings.
\<close>

theorem predict_breed_table_lookup:
  "(snd (predict_breed env img_path) = Inr breed \<longleftrightarrow>
      (\<exists>dog_names xception_model t bottleneck i.
          dog_names_pickle env = Inr dog_names \<and>
          load_xception_model env = Inr xception_model \<and>
          path_to_tensor env img_path = Inr t \<and>
          xception_bottleneck env = Inr bottleneck \<and>
          argmax (xception_model (bottleneck (xception_preprocess_input env t))) = Inr i \<and>
          i < length dog_names \<and> breed = dog_names ! i)) \<and>
   (snd (predict_breed env img_path) = Inr breed \<longrightarrow>
      (\<exists>dog_names. dog_names_pickle env = Inr dog_names \<and> breed \<in> set dog_names)) \<and>
   (dog_names_pickle env = Inr dog_names \<and>
    load_xception_model env = Inr xception_model \<and>
    path_to_tensor env img_path = Inr t \<and>
    xception_bottleneck env = Inr bottleneck \<and>
    xception_model (bottleneck (xception_preprocess_input env t)) = v \<and>
    v \<noteq> [] \<and> length v \<le> length dog_names \<longrightarrow>
      (\<exists>i<length v. (\<forall>j<length v. v ! j \<le> v ! i) \<and>
          snd (predict_breed env img_path) = Inr (dog_names ! i) \<and>
          dog_names ! i \<in> set dog_names))"
proof (intro conjI impI)
  show "snd (predict_breed env img_path) = Inr breed \<longleftrightarrow>
      (\<exists>dog_names xception_model t bottleneck i.
          dog_names_pickle env = Inr dog_names \<and>
          load_xception_model env = Inr xception_model \<and>
          path_to_tensor env img_path = Inr t \<and>
          xception_bottleneck env = Inr bottleneck \<and>
          argmax (xception_model (bottleneck (xception_preprocess_input env t))) = Inr i \<and>
          i < length dog_names \<and> breed = dog_names ! i)"
    by (auto simp: predict_breed_def split: sum.splits if_splits)
next
  assume "snd (predict_breed env img_path) = Inr breed"
  then show "\<exists>dog_names. dog_names_pickle env = Inr dog_names \<and> breed \<in> set dog_names"
    by (rule predict_breed_in_table)
next
  assume a: "dog_names_pickle env = Inr dog_names \<and>
    load_xception_model env = Inr xception_model \<and>
    path_to_tensor env img_path = Inr t \<and>
    xception_bottleneck env = Inr bottleneck \<and>
    xception_model (bottleneck (xception_preprocess_input env t)) = v \<and>
    v \<noteq> [] \<and> length v \<le> length dog_names"
  then obtain i where i: "argmax v = Inr i" "i < length v" "\<forall>j<length v. v ! j \<le> v ! i"
    using argmax_first_greatest [of v] by blast
  from a i(2) have in_table: "i < length dog_names" by simp
  from a i(1) in_table have "snd (predict_breed env img_path) = Inr (dog_names ! i)"
    by (auto simp: predict_breed_def)
  with i(2,3) in_table show "\<exists>i<length v. (\<forall>j<length v. v ! j \<le> v ! i) \<and>
          snd (predict_breed env img_path) = Inr (dog_names ! i) \<and>
          dog_names ! i \<in> set dog_names"
    by (intro exI [of _ i]) simp
qed

theorem predict_breed_table_lookup_witness:
  "snd (predict_breed demo_env ''/srv/uploads/dog.png'') = Inr ''Beagle'' \<and>
   (\<exists>dog_names. dog_names_pickle demo_env = Inr dog_names \<and> ''Beagle'' \<in> set dog_names) \<and>
   (\<exists>i<length [0, 2, 1::int].
      snd (predict_breed demo_env ''/srv/uploads/dog.png'') =
        Inr ([''Affenpinscher'', ''Beagle'', ''Collie''] ! i))"
proof -
  have 1: "snd (predict_breed demo_env ''/srv/uploads/dog.png'') = Inr ''Beagle''"
    by (rule demo_breed_dog)
  have 2: "dog_names_pickle demo_env = Inr [''Affenpinscher'', ''Beagle'', ''Collie''] \<and>
    load_xception_model demo_env =
      Inr (\<lambda>t. if t = ''/srv/uploads/dog.png'' then [0, 2, 1] else [0, 1, 2]) \<and>
    path_to_tensor demo_env ''/srv/uploads/dog.png'' = Inr ''/srv/uploads/dog.png'' \<and>
    xception_bottleneck demo_env = Inr (\<lambda>x. x) \<and>
    (\<lambda>t. if t = ''/srv/uploads/dog.png'' then [0, 2, 1] else [0, 1, 2])
      ((\<lambda>x. x) (xception_preprocess_input demo_env ''/srv/uploads/dog.png'')) = [0, 2, 1::int] \<and>
    [0, 2, 1::int] \<noteq> [] \<and>
    length [0, 2, 1::int] \<le> length [''Affenpinscher'', ''Beagle'', ''Collie'']"
    by (simp add: demo_simps)
  from predict_breed_table_lookup [of demo_env "''/srv/uploads/dog.png''" "''Beagle''"
      "[''Affenpinscher'', ''Beagle'', ''Collie'']"
      "\<lambda>t. if t = ''/srv/uploads/dog.png'' then [0, 2, 1] else [0, 1, 2]"
      "''/srv/uploads/dog.png''" "\<lambda>x. x" "[0, 2, 1]"] 1 2
  show ?thesis by blast
qed

subsection \<open>The upload directory and the upload loop\<close>







lemma field_names_set: "set (field_names fs) = fst ` set fs"
  by (induction fs rule: field_names.induct) (auto simp: image_iff)

lemma field_names_once: "distinct (field_names fs)"
  by (induction fs rule: field_names.induct) (auto simp: field_names_set)










lemma predict_all_fail:
  "snd (predict_all env ps acc) = Inl e \<Longrightarrow>
   \<exists>pre p rest. ps = pre @ p # rest \<and> snd (main_algorithm env p) = Inl e \<and>
                (\<forall>q\<in>set pre. \<exists>m. snd (main_algorithm env q) = Inr m)"
proof (induction ps arbitrary: acc)
  case Nil
  then show ?case by simp
next
  case (Cons p ps)
  show ?case
  proof (cases "snd (main_algorithm env p)")
    case (Inl e')
    with Cons.prems have "e' = e" by (cases "main_algorithm env p") simp
    with Inl show ?thesis by (intro exI [of _ "[]"] exI [of _ p] exI [of _ ps]) simp
  next
    case (Inr m)
    with Cons.prems have "snd (predict_all env ps (acc @ [m])) = Inl e"
      by (cases "main_algorithm env p") (simp split: prod.splits)
    from Cons.IH [OF this] obtain pre q rest where
      "ps = pre @ q # rest" "snd (main_algorithm env q) = Inl e"
      "\<forall>q\<in>set pre. \<exists>m. snd (main_algorithm env q) = Inr m" by blast
    with Inr show ?thesis
      by (intro exI [of _ "p # pre"] exI [of _ q] exI [of _ rest]) simp
  qed
qed

lemma predict_all_ok:
  "\<forall>p\<in>set ps. \<exists>m. snd (main_algorithm env p) = Inr m \<Longrightarrow>
   snd (predict_all env ps acc) =
     Inr (acc @ map (\<lambda>p. projr (snd (main_algorithm env p))) ps)"
proof (induction ps arbitrary: acc)
  case Nil
  then show ?case by simp
next
  case (Cons p ps)
  then obtain m where m: "snd (main_algorithm env p) = Inr m" by auto
  from Cons.prems have "\<forall>p\<in>set ps. \<exists>m. snd (main_algorithm env p) = Inr m" by simp
  from Cons.IH [OF this, of "acc @ [m]"] m show ?case
    by (cases "main_algorithm env p") (auto split: prod.splits)
qed

subsection \<open>The handlers on the small environment\<close>

lemma demo_main_human:
  "main_algorithm demo_env ''/srv/uploads/human.png'' =
     ([FaceDetector ''/srv/uploads/human.png'', PredictBreed ''/srv/uploads/human.png''],
      Inr ''Looks like a human! If this were a dog, though, I would guess a Collie'')"
  using main_algorithm_human [OF demo_face_human demo_breed_human]
  by (simp add: human_message_def)

lemma demo_main_dog:
  "main_algorithm demo_env ''/srv/uploads/dog.png'' =
     ([FaceDetector ''/srv/uploads/dog.png'', DogDetector ''/srv/uploads/dog.png'',
       PredictBreed ''/srv/uploads/dog.png''],
      Inr ''Looks like a dog! Perhaps a Beagle'')"
  using main_algorithm_dog [OF demo_face_dog demo_dog_dog demo_breed_dog]
  by (simp add: dog_message_def)

lemma demo_main_broken:
  "main_algorithm demo_env ''/srv/uploads/broken.png'' =
     ([FaceDetector ''/srv/uploads/broken.png''], Inl Cv2Error)"
  by (simp add: main_algorithm_def face_detector_def demo_env_def)

lemma demo_uploads_path: "uploads_path demo_env = ''/srv/uploads''"
  by (simp add: demo_env_def)

lemmas demo_web_simps = index_def demo_env_def create_def enter_def top_entry_def unlink_def

lemma demo_index_two:
  "index demo_env
     \<lparr>req_method = POST, req_files = [(''file[0]'', ''human.png''), (''file[1]'', ''dog.png'')]\<rparr>
     \<lparr>uploads = Some [], session = None, ran = []\<rparr> =
   (\<lparr>uploads = Some [File ''dog.png'', File ''human.png''],
     session = Some [''/_uploads/photos/human.png'', ''/_uploads/photos/dog.png''], ran = []\<rparr>,
    Inr (Body ''uploading...''))"
  by (simp add: demo_web_simps)





subsection \<open>The web layer\<close>




text \<open>
  Claim C7. \<^verbatim>\<open>/results\<close> redirects to \<^verbatim>\<open>/\<close> when the session has no URL list
  or an empty one; with a non-empty list it renders that list and does not
  redirect.
\<close>

theorem uploaded_images_redirect:
  "(session w = None \<or> session w = Some [] \<longrightarrow> uploaded_images w = (w, Inr (Redirect ''/''))) \<and>
   (session w = Some file_urls \<and> file_urls \<noteq> [] \<longrightarrow>
      uploaded_images w = (w, Inr (Render ''uploaded_images.html'' [(''file_urls'', file_urls)])) \<and>
      (\<forall>url. snd (uploaded_images w) \<noteq> Inr (Redirect url)))"
  by (auto simp: uploaded_images_def)

theorem uploaded_images_redirect_witness:
  "snd (uploaded_images \<lparr>uploads = Some [], session = None, ran = []\<rparr>) = Inr (Redirect ''/'') \<and>
   snd (uploaded_images \<lparr>uploads = Some [], session = Some [], ran = []\<rparr>) =
     Inr (Redirect ''/'') \<and>
   snd (uploaded_images \<lparr>uploads = Some [File ''dog.png''],
         session = Some [''/_uploads/photos/dog.png''], ran = []\<rparr>) =
     Inr (Render ''uploaded_images.html'' [(''file_urls'', [''/_uploads/photos/dog.png''])])"
  using uploaded_images_redirect [of "\<lparr>uploads = Some [], session = None, ran = []\<rparr>"]
    uploaded_images_redirect [of "\<lparr>uploads = Some [], session = Some [], ran = []\<rparr>"]
    uploaded_images_redirect [of "\<lparr>uploads = Some [File ''dog.png''],
      session = Some [''/_uploads/photos/dog.png''], ran = []\<rparr>" "[''/_uploads/photos/dog.png'']"]
  by simp

text \<open>
  Claim C8. \<^verbatim>\<open>/predictions\<close> without the key \<^verbatim>\<open>file_urls\<close> in the session
  ends in a \<^verbatim>\<open>KeyError\<close>: nothing is rendered, nothing is redirected, and the
  state is as before.
\<close>

theorem predictions_without_upload:
  "session w = None \<Longrightarrow> predictions env w = (w, Inl KeyError)"
  by (simp add: predictions_def)

theorem predictions_without_upload_witness:
  "predictions demo_env \<lparr>uploads = Some [File ''dog.png''], session = None, ran = []\<rparr> =
     (\<lparr>uploads = Some [File ''dog.png''], session = None, ran = []\<rparr>, Inl KeyError)"
  using predictions_without_upload [of
      "\<lparr>uploads = Some [File ''dog.png''], session = None, ran = []\<rparr>" demo_env]
  by simp




text \<open>
  Claim C10. \<^verbatim>\<open>/predictions\<close> pops \<^verbatim>\<open>file_urls\<close> before it classifies: when
  the session had the key, the session is without it afterwards, whether the
  request succeeds or ends in an exception. Such an exception is that of a
  missing upload directory or the one that \<^verbatim>\<open>main_algorithm\<close> raised on the
  first file it failed on. The directory is left as it was.
\<close>

theorem predictions_session_cleared:
  assumes "session w = Some file_urls"
  shows "session (fst (predictions env w)) = None \<and>
         uploads (fst (predictions env w)) = uploads w \<and>
         (\<forall>e. snd (predictions env w) = Inl e \<longrightarrow>
            (uploads w = None \<and> e = FileNotFoundError) \<or>
            (\<exists>dir pre p rest. uploads w = Some dir \<and> img_paths env dir = pre @ p # rest \<and>
               snd (main_algorithm env p) = Inl e \<and>
               (\<forall>q\<in>set pre. \<exists>m. snd (main_algorithm env q) = Inr m)))"
proof (cases "uploads w")
  case None
  with assms show ?thesis by (simp add: predictions_def)
next
  case (Some dir)
  let ?w1 = "w\<lparr>session := None\<rparr>"
  obtain cs r where run: "predict_all env (img_paths env dir) [] = (cs, r)"
    by (cases "predict_all env (img_paths env dir) []")
  have state: "fst (predictions env w) = ?w1\<lparr>ran := ran ?w1 @ cs\<rparr>"
    using assms Some run by (cases r) (simp_all add: predictions_def Let_def)
  have "\<exists>pre p rest. img_paths env dir = pre @ p # rest \<and>
               snd (main_algorithm env p) = Inl e \<and>
               (\<forall>q\<in>set pre. \<exists>m. snd (main_algorithm env q) = Inr m)"
    if "snd (predictions env w) = Inl e" for e
  proof -
    from that assms Some run have "r = Inl e"
      by (cases r) (simp_all add: predictions_def Let_def)
    with run have "snd (predict_all env (img_paths env dir) []) = Inl e" by simp
    then show ?thesis by (rule predict_all_fail)
  qed
  with state Some show ?thesis by simp
qed

theorem predictions_session_cleared_witness:
  "session \<lparr>uploads = Some [File ''broken.png''], session = Some [''/_uploads/photos/broken.png''],
      ran = []\<rparr> = Some [''/_uploads/photos/broken.png''] \<and>
   snd (predictions demo_env \<lparr>uploads = Some [File ''broken.png''],
      session = Some [''/_uploads/photos/broken.png''], ran = []\<rparr>) = Inl Cv2Error \<and>
   session (fst (predictions demo_env \<lparr>uploads = Some [File ''broken.png''],
      session = Some [''/_uploads/photos/broken.png''], ran = []\<rparr>)) = None"
proof -
  have "snd (predictions demo_env \<lparr>uploads = Some [File ''broken.png''],
      session = Some [''/_uploads/photos/broken.png''], ran = []\<rparr>) = Inl Cv2Error"
    by (simp add: predictions_def img_paths_def demo_uploads_path demo_main_broken)
  with predictions_session_cleared [of "\<lparr>uploads = Some [File ''broken.png''],
      session = Some [''/_uploads/photos/broken.png''], ran = []\<rparr>"
      "[''/_uploads/photos/broken.png'']" demo_env]
  show ?thesis by simp
qed

text \<open>
  Without an exception \<^verbatim>\<open>/predictions\<close> renders one prediction per entry, in
  the order the directory lists the entries.
\<close>

lemma predictions_listing_order:
  assumes "session w = Some file_urls" and "uploads w = Some dir"
    and "\<forall>p\<in>set (img_paths env dir). \<exists>m. snd (main_algorithm env p) = Inr m"
  shows "snd (predictions env w) =
     Inr (Render ''predictions.html''
       [(''file_urls'', file_urls),
        (''predictions'', map (\<lambda>p. projr (snd (main_algorithm env p))) (img_paths env dir))])"
proof -
  obtain cs where "predict_all env (img_paths env dir) [] =
      (cs, Inr (map (\<lambda>p. projr (snd (main_algorithm env p))) (img_paths env dir)))"
    using predict_all_ok [OF assms(3), of "[]"]
    by (cases "predict_all env (img_paths env dir) []") simp
  then show ?thesis using assms(1,2) by (simp add: predictions_def Let_def)
qed

text \<open>
  Claim C4. Two files, \<^verbatim>\<open>human.png\<close> and then \<^verbatim>\<open>dog.png\<close>, are uploaded in one
  request to an empty directory that the file system lists by name. The session
  holds the URLs in upload order, and \<^verbatim>\<open>/predictions\<close> returns two
  predictions, but in the order of the listing: the first prediction is the
  message of \<^verbatim>\<open>main_algorithm\<close> for \<^verbatim>\<open>dog.png\<close>, the second uploaded file,
  and the second prediction the message for \<^verbatim>\<open>human.png\<close>, the first.
\<close>

theorem predictions_not_in_upload_order:
  "session (fst (index demo_env
      \<lparr>req_method = POST, req_files = [(''file[0]'', ''human.png''), (''file[1]'', ''dog.png'')]\<rparr>
      \<lparr>uploads = Some [], session = None, ran = []\<rparr>)) =
     Some [''/_uploads/photos/human.png'', ''/_uploads/photos/dog.png''] \<and>
   snd (predictions demo_env (fst (index demo_env
      \<lparr>req_method = POST, req_files = [(''file[0]'', ''human.png''), (''file[1]'', ''dog.png'')]\<rparr>
      \<lparr>uploads = Some [], session = None, ran = []\<rparr>))) =
     Inr (Render ''predictions.html''
       [(''file_urls'', [''/_uploads/photos/human.png'', ''/_uploads/photos/dog.png'']),
        (''predictions'',
           [''Looks like a dog! Perhaps a Beagle'',
            ''Looks like a human! If this were a dog, though, I would guess a Collie''])]) \<and>
   snd (main_algorithm demo_env ''/srv/uploads/human.png'') =
     Inr ''Looks like a human! If this were a dog, though, I would guess a Collie'' \<and>
   snd (main_algorithm demo_env ''/srv/uploads/dog.png'') =
     Inr ''Looks like a dog! Perhaps a Beagle''"
  by (simp add: demo_index_two predictions_def img_paths_def demo_uploads_path
      demo_main_human demo_main_dog)

end
